theory Spec2Isabelle
  imports Main
begin

section \<open>Data model (types/reservation.ts, types/restaurant.ts)\<close>

text \<open>
  The five values of the string union \<open>ReservationStatus\<close>:
  \<open>'pending' | 'confirmed' | 'cancelled' | 'completed' | 'no-show'\<close>.
\<close>

datatype ReservationStatus = Pending | Confirmed | Cancelled | Completed | NoShow

text \<open>
  A row of the \<open>reservations\<close> table (interface \<open>Reservation\<close>). The field \<open>id\<close> is
  written \<open>id_res\<close>. A JavaScript \<open>number\<close> that holds a count of people is an \<open>int\<close>:
  nothing in the source keeps it positive.
\<close>

record reservation =
  id_res :: string
  restaurant_id :: string
  reservation_date :: string
  reservation_time :: string
  party_size :: int
  guest_name :: string
  guest_phone :: string
  guest_email :: "string option"
  special_requests :: "string option"
  status :: ReservationStatus
  confirmation_sent :: bool
  reminder_sent :: bool
  created_at :: string
  updated_at :: string

text \<open>
  A row of the \<open>restaurants\<close> table (interface \<open>Restaurant\<close>), with the columns the
  reservation workflow reads: \<open>id\<close> (written \<open>id_rest\<close>) and \<open>total_seats: number | null\<close>.
\<close>

record restaurant =
  id_rest :: string
  name_rest :: string
  total_seats :: "int option"

text \<open>Interface \<open>AvailabilityCheck\<close>; its \<open>party_size\<close> and \<open>restaurant_id\<close> carry a suffix.\<close>

record AvailabilityCheck =
  date :: string
  time :: string
  party_size_chk :: int
  restaurant_id_chk :: string

text \<open>Interface \<open>AvailabilityResult\<close>; an optional field that is left out is \<open>None\<close>.\<close>

record AvailabilityResult =
  available :: bool
  reason :: "string option"
  current_bookings :: "int option"
  total_seats_res :: "int option"

text \<open>Type \<open>CreateReservationInput\<close>, fields suffixed \<open>_in\<close>.\<close>

record CreateReservationInput =
  restaurant_id_in :: string
  reservation_date_in :: string
  reservation_time_in :: string
  party_size_in :: int
  guest_name_in :: string
  guest_phone_in :: string
  guest_email_in :: "string option"
  special_requests_in :: "string option"

text \<open>Type \<open>UpdateReservationInput\<close>, fields suffixed \<open>_up\<close>; every field is optional.\<close>

record UpdateReservationInput =
  reservation_date_up :: "string option"
  reservation_time_up :: "string option"
  party_size_up :: "int option"
  guest_name_up :: "string option"
  guest_phone_up :: "string option"
  guest_email_up :: "string option"
  special_requests_up :: "string option"
  status_up :: "ReservationStatus option"

text \<open>Interface \<open>ReservationSummary\<close>.\<close>

record ReservationSummary =
  total_reservations :: int
  confirmed :: int
  cancelled :: int
  completed :: int
  no_shows :: int
  total_guests :: int

section \<open>The record store\<close>

text \<open>
  Modelled from the spec: the record store behind \<open>supabase\<close> (\<open>./client\<close> and the table
  schema are not part of the sources). It is the spec's external collaborator: tables of
  rows that are queried by filters, with insert and update by identifier. A query returns
  the matching rows in table order; \<open>.single()\<close> turns a result that is not exactly one
  row into an error; an update changes every row its filter matches. Failures of the
  transport are outside the model, so the only store error is the one of \<open>.single()\<close>,
  and the \<open>catch\<close> branches of the source that only such a failure reaches have no
  counterpart.
\<close>

record db =
  restaurants :: "restaurant list"
  reservations :: "reservation list"

datatype store_error = NotSingleRow

text \<open>
  The \<open>error: string\<close> of a result: \<open>Message s\<close> is a literal of the source (or a
  \<open>reason\<close> it built), \<open>StoreFailure e\<close> is the \<open>message\<close> of the store's error \<open>e\<close>,
  whose text belongs to the store.
\<close>

datatype error = Message string | StoreFailure store_error

fun single :: "'a list \<Rightarrow> store_error + 'a" where
  "single [r] = Inr r"
| "single _ = Inl NotSingleRow"

text \<open>
  Modelled from the spec: the columns of a new \<open>reservations\<close> row that the insert of
  \<open>createReservation\<close> does not supply and the store fills in.
\<close>

record generated =
  gen_id :: string
  gen_confirmation_sent :: bool
  gen_reminder_sent :: bool
  gen_created_at :: string
  gen_updated_at :: string

section \<open>JavaScript operators the source relies on\<close>

text \<open>\<open>a || b\<close> on \<open>number | null | undefined\<close>: \<open>0\<close>, \<open>null\<close> and \<open>undefined\<close> are falsy.\<close>

definition truthy_num :: "int option \<Rightarrow> bool" where
  "truthy_num a = (case a of None \<Rightarrow> False | Some n \<Rightarrow> n \<noteq> 0)"

definition or_num :: "int option \<Rightarrow> int \<Rightarrow> int" where
  "or_num a b = (case a of None \<Rightarrow> b | Some n \<Rightarrow> if n \<noteq> 0 then n else b)"

text \<open>\<open>a || b\<close> on \<open>string | undefined\<close>: the empty string and \<open>undefined\<close> are falsy.\<close>

definition truthy_str :: "string option \<Rightarrow> bool" where
  "truthy_str a = (case a of None \<Rightarrow> False | Some s \<Rightarrow> s \<noteq> [])"

definition or_str :: "string option \<Rightarrow> string \<Rightarrow> string" where
  "or_str a b = (case a of None \<Rightarrow> b | Some s \<Rightarrow> if s \<noteq> [] then s else b)"

text \<open>
  An integer inside a template literal: decimal digits, with a leading minus sign.
\<close>

definition digit_char :: "nat \<Rightarrow> char" where
  "digit_char d = ''0123456789'' ! d"

fun show_nat :: "nat \<Rightarrow> string" where
  "show_nat n = (if n < 10 then [digit_char n] else show_nat (n div 10) @ [digit_char (n mod 10)])"

declare show_nat.simps [simp del]

definition show_int :: "int \<Rightarrow> string" where
  "show_int i = (if i < 0 then CHR ''-'' # show_nat (nat (- i)) else show_nat (nat i))"

section \<open>Availability checking (lib/supabase/reservations.ts)\<close>

text \<open>
  The query of step 2: rows of \<open>reservations\<close> with the given restaurant, date and time
  whose status is not \<open>'cancelled'\<close>.
\<close>

definition slot_rows :: "db \<Rightarrow> string \<Rightarrow> string \<Rightarrow> string \<Rightarrow> reservation list" where
  "slot_rows d rid dt tm =
     filter (\<lambda>r. restaurant_id r = rid \<and> reservation_date r = dt \<and> reservation_time r = tm
                 \<and> status r \<noteq> Cancelled) (reservations d)"

text \<open>
  \<open>checkAvailability\<close>. The restaurant is read with \<open>.single()\<close>; an error or no row
  gives \<open>'Restaurant not found'\<close>. The error of the reservations query is ignored by the
  source (\<open>existingReservations || []\<close>). \<open>reduce\<close> is a left fold from \<open>0\<close>.
\<close>

definition checkAvailability :: "db \<Rightarrow> AvailabilityCheck \<Rightarrow> AvailabilityResult" where
  "checkAvailability d check =
     (case single (filter (\<lambda>r. id_rest r = restaurant_id_chk check) (restaurants d)) of
        Inl restaurantError \<Rightarrow>
          \<lparr>available = False, reason = Some ''Restaurant not found'',
           current_bookings = None, total_seats_res = None\<rparr>
      | Inr restaurant \<Rightarrow>
          (let existingReservations =
                 slot_rows d (restaurant_id_chk check) (date check) (time check);
               totalBooked = foldl (\<lambda>sum res. sum + party_size res) 0 existingReservations;
               newTotal = totalBooked + party_size_chk check;
               totalSeats = or_num (total_seats restaurant) 0
           in if newTotal > totalSeats
              then \<lparr>available = False,
                    reason = Some (''Not enough seats available. ''
                                   @ show_int (totalSeats - totalBooked)
                                   @ '' seats remaining.''),
                    current_bookings = Some totalBooked, total_seats_res = Some totalSeats\<rparr>
              else \<lparr>available = True, reason = None,
                    current_bookings = Some totalBooked, total_seats_res = Some totalSeats\<rparr>))"

text \<open>
  The seats booked in a slot, as the claims word them and written out on the table
  itself: the sum of \<open>party_size\<close> over the reservations of the restaurant, date and
  time whose status is not \<open>cancelled\<close>. That \<open>checkAvailability\<close> computes this number
  is a lemma, not part of this definition.
\<close>

definition booked :: "db \<Rightarrow> string \<Rightarrow> string \<Rightarrow> string \<Rightarrow> int" where
  "booked d rid dt tm =
     sum_list (map party_size
       (filter (\<lambda>r. restaurant_id r = rid \<and> reservation_date r = dt
                    \<and> reservation_time r = tm \<and> status r \<noteq> Cancelled)
          (reservations d)))"

section \<open>Creating a reservation\<close>

text \<open>The argument \<open>createReservation\<close> passes to \<open>checkAvailability\<close>.\<close>

definition check_of_input :: "CreateReservationInput \<Rightarrow> AvailabilityCheck" where
  "check_of_input input =
     \<lparr>date = reservation_date_in input, time = reservation_time_in input,
      party_size_chk = party_size_in input, restaurant_id_chk = restaurant_id_in input\<rparr>"

text \<open>The inserted object \<open>{ ...input, status: 'confirmed' }\<close>, completed by the store.\<close>

definition new_row :: "generated \<Rightarrow> CreateReservationInput \<Rightarrow> reservation" where
  "new_row g input =
     \<lparr>id_res = gen_id g,
      restaurant_id = restaurant_id_in input,
      reservation_date = reservation_date_in input,
      reservation_time = reservation_time_in input,
      party_size = party_size_in input,
      guest_name = guest_name_in input,
      guest_phone = guest_phone_in input,
      guest_email = guest_email_in input,
      special_requests = special_requests_in input,
      status = Confirmed,
      confirmation_sent = gen_confirmation_sent g,
      reminder_sent = gen_reminder_sent g,
      created_at = gen_created_at g,
      updated_at = gen_updated_at g\<rparr>"

text \<open>
  \<open>createReservation\<close> from the point where \<open>await checkAvailability(...)\<close> has
  returned \<open>availability\<close>: the early return when the slot is unavailable, and the
  insert with \<open>.select().single()\<close> otherwise. The store it writes to is the store at
  that moment.
\<close>

definition createReservation_resume ::
  "db \<Rightarrow> generated \<Rightarrow> CreateReservationInput \<Rightarrow> AvailabilityResult \<Rightarrow> db \<times> (error + reservation)" where
  "createReservation_resume d g input availability =
     (if \<not> available availability
      then (d, Inl (Message (or_str (reason availability) ''Reservation not available'')))
      else (let d' = d\<lparr>reservations := reservations d @ [new_row g input]\<rparr>
            in case single [new_row g input] of
                 Inl e \<Rightarrow> (d', Inl (StoreFailure e))
               | Inr data \<Rightarrow> (d', Inr data)))"

text \<open>\<open>createReservation\<close>, run with nothing else touching the store in between.\<close>

definition createReservation ::
  "db \<Rightarrow> generated \<Rightarrow> CreateReservationInput \<Rightarrow> db \<times> (error + reservation)" where
  "createReservation d g input =
     createReservation_resume d g input (checkAvailability d (check_of_input input))"

text \<open>
  Two calls of \<open>createReservation\<close> started together: each call suspends at its
  \<open>await checkAvailability(...)\<close>, so both checks read the store before either insert
  is issued; then the first call resumes, then the second.
\<close>

definition createReservation_race ::
  "db \<Rightarrow> generated \<Rightarrow> CreateReservationInput \<Rightarrow> generated \<Rightarrow> CreateReservationInput
     \<Rightarrow> db \<times> (error + reservation) \<times> (error + reservation)" where
  "createReservation_race d g1 input1 g2 input2 =
     (let availability1 = checkAvailability d (check_of_input input1);
          availability2 = checkAvailability d (check_of_input input2);
          (d1, result1) = createReservation_resume d g1 input1 availability1;
          (d2, result2) = createReservation_resume d1 g2 input2 availability2
      in (d2, result1, result2))"

section \<open>Reading and updating a reservation\<close>

text \<open>\<open>getReservationById\<close>: the error of \<open>.single()\<close> is caught and becomes \<open>null\<close>.\<close>

definition getReservationById :: "db \<Rightarrow> string \<Rightarrow> reservation option" where
  "getReservationById d i =
     (case single (filter (\<lambda>r. id_res r = i) (reservations d)) of
        Inl e \<Rightarrow> None
      | Inr data \<Rightarrow> Some data)"

text \<open>\<open>.update(input)\<close> on one row: a field that is present replaces the column.\<close>

definition apply_patch :: "UpdateReservationInput \<Rightarrow> reservation \<Rightarrow> reservation" where
  "apply_patch input r =
     r\<lparr>reservation_date := (case reservation_date_up input of None \<Rightarrow> reservation_date r | Some v \<Rightarrow> v),
       reservation_time := (case reservation_time_up input of None \<Rightarrow> reservation_time r | Some v \<Rightarrow> v),
       party_size := (case party_size_up input of None \<Rightarrow> party_size r | Some v \<Rightarrow> v),
       guest_name := (case guest_name_up input of None \<Rightarrow> guest_name r | Some v \<Rightarrow> v),
       guest_phone := (case guest_phone_up input of None \<Rightarrow> guest_phone r | Some v \<Rightarrow> v),
       guest_email := (case guest_email_up input of None \<Rightarrow> guest_email r | Some v \<Rightarrow> Some v),
       special_requests :=
         (case special_requests_up input of None \<Rightarrow> special_requests r | Some v \<Rightarrow> Some v),
       status := (case status_up input of None \<Rightarrow> status r | Some v \<Rightarrow> v)\<rparr>"

text \<open>\<open>.update(...).eq('id', id)\<close>: every row with that id is changed.\<close>

definition update_rows :: "db \<Rightarrow> string \<Rightarrow> (reservation \<Rightarrow> reservation) \<Rightarrow> db" where
  "update_rows d i f = d\<lparr>reservations := map (\<lambda>r. if id_res r = i then f r else r) (reservations d)\<rparr>"

text \<open>
  The write of \<open>updateReservation\<close>: \<open>.update(input).eq('id', id).select().single()\<close>,
  whose error is thrown and caught into \<open>error.message\<close>.
\<close>

definition update_write ::
  "db \<Rightarrow> string \<Rightarrow> UpdateReservationInput \<Rightarrow> db \<times> (error + reservation)" where
  "update_write d i input =
     (let d' = update_rows d i (apply_patch input)
      in case single (filter (\<lambda>r. id_res r = i) (reservations d')) of
           Inl e \<Rightarrow> (d', Inl (StoreFailure e))
         | Inr data \<Rightarrow> (d', Inr data))"

text \<open>The condition \<open>input.reservation_date || input.reservation_time || input.party_size\<close>.\<close>

definition rechecks :: "UpdateReservationInput \<Rightarrow> bool" where
  "rechecks input =
     (truthy_str (reservation_date_up input) \<or> truthy_str (reservation_time_up input)
      \<or> truthy_num (party_size_up input))"

text \<open>The argument \<open>updateReservation\<close> passes to \<open>checkAvailability\<close>.\<close>

definition merged_check :: "UpdateReservationInput \<Rightarrow> reservation \<Rightarrow> AvailabilityCheck" where
  "merged_check input currentReservation =
     \<lparr>date = or_str (reservation_date_up input) (reservation_date currentReservation),
      time = or_str (reservation_time_up input) (reservation_time currentReservation),
      party_size_chk = or_num (party_size_up input) (party_size currentReservation),
      restaurant_id_chk = restaurant_id currentReservation\<rparr>"

definition updateReservation ::
  "db \<Rightarrow> string \<Rightarrow> UpdateReservationInput \<Rightarrow> db \<times> (error + reservation)" where
  "updateReservation d i input =
     (if rechecks input
      then (case getReservationById d i of
              None \<Rightarrow> (d, Inl (Message ''Reservation not found''))
            | Some currentReservation \<Rightarrow>
                (let availability = checkAvailability d (merged_check input currentReservation)
                 in if \<not> available availability
                    then (d, Inl (Message (or_str (reason availability) ''New time slot not available'')))
                    else update_write d i input))
      else update_write d i input)"

section \<open>Cancelling a reservation\<close>

text \<open>The result \<open>{ success, error }\<close> of \<open>cancelReservation\<close>.\<close>

record CancelResult =
  success :: bool
  error_c :: "error option"

text \<open>
  \<open>cancelReservation\<close>: \<open>.update({ status: 'cancelled' }).eq('id', id)\<close>, with no
  \<open>.select()\<close> and no \<open>.single()\<close>, so the store reports no error whatever the number of
  rows it matched.
\<close>

definition cancelReservation :: "db \<Rightarrow> string \<Rightarrow> db \<times> CancelResult" where
  "cancelReservation d i =
     (update_rows d i (\<lambda>r. r\<lparr>status := Cancelled\<rparr>), \<lparr>success = True, error_c = None\<rparr>)"

section \<open>Sequences of operations\<close>

datatype operation = Create generated CreateReservationInput | Cancel string

fun run_op :: "db \<Rightarrow> operation \<Rightarrow> db" where
  "run_op d (Create g input) = fst (createReservation d g input)"
| "run_op d (Cancel i) = fst (cancelReservation d i)"

definition run_ops :: "db \<Rightarrow> operation list \<Rightarrow> db" where
  "run_ops d ops = foldl run_op d ops"

section \<open>Summary\<close>

text \<open>
  Modelled from the spec: the store's \<open>gte\<close> and \<open>lte\<close> on the date column. Dates are
  ISO strings of one length (\<open>"2025-11-22"\<close>), which the order of their characters sorts
  as calendar dates.
\<close>

fun str_le :: "string \<Rightarrow> string \<Rightarrow> bool" where
  "str_le [] ys = True"
| "str_le (x # xs) [] = False"
| "str_le (x # xs) (y # ys) =
     ((of_char x :: nat) < of_char y \<or> (x = y \<and> str_le xs ys))"

text \<open>\<open>if (date_from) query = query.gte('reservation_date', date_from)\<close>, and \<open>date_to\<close>.\<close>

definition gte_date :: "string option \<Rightarrow> reservation list \<Rightarrow> reservation list" where
  "gte_date date_from query =
     (if truthy_str date_from
      then filter (\<lambda>r. str_le (or_str date_from []) (reservation_date r)) query
      else query)"

definition lte_date :: "string option \<Rightarrow> reservation list \<Rightarrow> reservation list" where
  "lte_date date_to query =
     (if truthy_str date_to
      then filter (\<lambda>r. str_le (reservation_date r) (or_str date_to [])) query
      else query)"

definition summary_rows :: "db \<Rightarrow> string \<Rightarrow> string option \<Rightarrow> string option \<Rightarrow> reservation list" where
  "summary_rows d rid date_from date_to =
     lte_date date_to (gte_date date_from (filter (\<lambda>r. restaurant_id r = rid) (reservations d)))"

text \<open>The body of the \<open>forEach\<close>: one returned row added to the running summary.\<close>

definition count_reservation :: "ReservationSummary \<Rightarrow> reservation \<Rightarrow> ReservationSummary" where
  "count_reservation summary r =
     (let s = summary\<lparr>total_guests := total_guests summary + party_size r\<rparr>
      in case status r of
           Confirmed \<Rightarrow> s\<lparr>confirmed := confirmed s + 1\<rparr>
         | Pending \<Rightarrow> s\<lparr>confirmed := confirmed s + 1\<rparr>
         | Cancelled \<Rightarrow> s\<lparr>cancelled := cancelled s + 1\<rparr>
         | Completed \<Rightarrow> s\<lparr>completed := completed s + 1\<rparr>
         | NoShow \<Rightarrow> s\<lparr>no_shows := no_shows s + 1\<rparr>)"

definition getReservationSummary ::
  "db \<Rightarrow> string \<Rightarrow> string option \<Rightarrow> string option \<Rightarrow> ReservationSummary" where
  "getReservationSummary d rid date_from date_to =
     (let data = summary_rows d rid date_from date_to;
          summary = \<lparr>total_reservations = int (length data), confirmed = 0, cancelled = 0,
                     completed = 0, no_shows = 0, total_guests = 0\<rparr>
      in foldl count_reservation summary data)"

section \<open>The exclusion the spec describes\<close>

text \<open>
  Modelled from the spec: the sum the spec's availability check takes when
  \<open>excludeReservationId\<close> is supplied, the non-cancelled reservations of the slot
  without the record of that id. The source has no such parameter; the definition
  serves to say what the source's sum contains.
\<close>

definition booked_excluding :: "db \<Rightarrow> string \<Rightarrow> string \<Rightarrow> string \<Rightarrow> string \<Rightarrow> int" where
  "booked_excluding d i rid dt tm =
     sum_list (map party_size
       (filter (\<lambda>r. id_res r \<noteq> i)
          (filter (\<lambda>r. restaurant_id r = rid \<and> reservation_date r = dt
                       \<and> reservation_time r = tm \<and> status r \<noteq> Cancelled)
             (reservations d))))"

section \<open>Example data\<close>

text \<open>
  The scenario of the spec: a restaurant with ten seats and reservation A, a confirmed
  party of six on 2025-11-22 at 19:00.
\<close>

definition bistro :: restaurant where
  "bistro = \<lparr>id_rest = ''r1'', name_rest = ''Bistro'', total_seats = Some 10\<rparr>"

definition reservationA :: reservation where
  "reservationA =
     \<lparr>id_res = ''A'', restaurant_id = ''r1'', reservation_date = ''2025-11-22'',
      reservation_time = ''19:00'', party_size = 6, guest_name = ''Ada'',
      guest_phone = ''555-0100'', guest_email = None, special_requests = None,
      status = Confirmed, confirmation_sent = False, reminder_sent = False,
      created_at = ''2025-11-01T10:00:00Z'', updated_at = ''2025-11-01T10:00:00Z''\<rparr>"

definition db_A :: db where
  "db_A = \<lparr>restaurants = [bistro], reservations = [reservationA]\<rparr>"

definition check_at :: "int \<Rightarrow> AvailabilityCheck" where
  "check_at n = \<lparr>date = ''2025-11-22'', time = ''19:00'', party_size_chk = n,
                 restaurant_id_chk = ''r1''\<rparr>"

definition cafe :: restaurant where
  "cafe = \<lparr>id_rest = ''r2'', name_rest = ''Cafe'', total_seats = None\<rparr>"

definition db_cafe :: db where
  "db_cafe = \<lparr>restaurants = [bistro, cafe], reservations = [reservationA]\<rparr>"

text \<open>
  A busier store around reservation A: a cancelled party of three in A's slot, and
  parties of two at another time, on another date and in another restaurant.
\<close>

definition db_busy :: db where
  "db_busy =
     \<lparr>restaurants = [bistro, cafe],
      reservations =
        [reservationA,
         reservationA\<lparr>id_res := ''X'', party_size := 3, status := Cancelled\<rparr>,
         reservationA\<lparr>id_res := ''T'', reservation_time := ''20:00'', party_size := 2\<rparr>,
         reservationA\<lparr>id_res := ''U'', reservation_date := ''2025-11-23'', party_size := 2,
           status := Pending\<rparr>,
         reservationA\<lparr>id_res := ''V'', restaurant_id := ''r2'', party_size := 2\<rparr>]\<rparr>"

definition check_cafe :: AvailabilityCheck where
  "check_cafe = \<lparr>date = ''2025-11-22'', time = ''19:00'', party_size_chk = 2,
                 restaurant_id_chk = ''r2''\<rparr>"

definition input_at :: "int \<Rightarrow> CreateReservationInput" where
  "input_at n =
     \<lparr>restaurant_id_in = ''r1'', reservation_date_in = ''2025-11-22'',
      reservation_time_in = ''19:00'', party_size_in = n, guest_name_in = ''Grace'',
      guest_phone_in = ''555-0101'', guest_email_in = None, special_requests_in = None\<rparr>"

definition input_cafe :: "int \<Rightarrow> CreateReservationInput" where
  "input_cafe n = (input_at n)\<lparr>restaurant_id_in := ''r2''\<rparr>"

definition gen_B :: generated where
  "gen_B = \<lparr>gen_id = ''B'', gen_confirmation_sent = False, gen_reminder_sent = False,
            gen_created_at = ''2025-11-02T09:00:00Z'', gen_updated_at = ''2025-11-02T09:00:00Z''\<rparr>"

definition reservationC :: reservation where
  "reservationC =
     \<lparr>id_res = ''C'', restaurant_id = ''r1'', reservation_date = ''2025-11-20'',
      reservation_time = ''12:30'', party_size = 3, guest_name = ''Alan'',
      guest_phone = ''555-0102'', guest_email = Some ''alan@example.org'',
      special_requests = None, status = Completed, confirmation_sent = True,
      reminder_sent = True, created_at = ''2025-10-30T08:00:00Z'',
      updated_at = ''2025-11-20T14:00:00Z''\<rparr>"

definition db_AC :: db where
  "db_AC = \<lparr>restaurants = [bistro], reservations = [reservationA, reservationC]\<rparr>"

definition no_patch :: UpdateReservationInput where
  "no_patch =
     \<lparr>reservation_date_up = None, reservation_time_up = None, party_size_up = None,
      guest_name_up = None, guest_phone_up = None, guest_email_up = None,
      special_requests_up = None, status_up = None\<rparr>"

definition patch_party :: "int \<Rightarrow> UpdateReservationInput" where
  "patch_party n = no_patch\<lparr>party_size_up := Some n\<rparr>"

definition patch_status :: "ReservationStatus \<Rightarrow> UpdateReservationInput" where
  "patch_status s = no_patch\<lparr>status_up := Some s\<rparr>"

definition db_empty :: db where
  "db_empty = \<lparr>restaurants = [bistro], reservations = []\<rparr>"

definition gen_D :: generated where
  "gen_D = \<lparr>gen_id = ''D'', gen_confirmation_sent = False, gen_reminder_sent = False,
            gen_created_at = ''2025-11-02T09:00:01Z'', gen_updated_at = ''2025-11-02T09:00:01Z''\<rparr>"

definition example_ops :: "operation list" where
  "example_ops =
     [Create gen_B (input_at 4), Create gen_D (input_at 1), Cancel ''A'',
      Create gen_D (input_at 5)]"

section \<open>Properties of the availability check\<close>

lemma foldl_party_size:
  "foldl (\<lambda>sum res. sum + party_size res) a rows = a + sum_list (map party_size rows)"
  by (induction rows arbitrary: a) simp_all

lemma checkAvailability_found:
  assumes "single (filter (\<lambda>r. id_rest r = restaurant_id_chk check) (restaurants d)) = Inr rest"
  shows "checkAvailability d check =
     (let totalBooked = booked d (restaurant_id_chk check) (date check) (time check);
          totalSeats = or_num (total_seats rest) 0
      in if totalBooked + party_size_chk check > totalSeats
         then \<lparr>available = False,
               reason = Some (''Not enough seats available. ''
                              @ show_int (totalSeats - totalBooked) @ '' seats remaining.''),
               current_bookings = Some totalBooked, total_seats_res = Some totalSeats\<rparr>
         else \<lparr>available = True, reason = None,
               current_bookings = Some totalBooked, total_seats_res = Some totalSeats\<rparr>)"
  using assms
  by (simp add: checkAvailability_def slot_rows_def booked_def foldl_party_size Let_def)

text \<open>
  Claim C3. For an existing restaurant (the read with \<open>.single()\<close> returns its row),
  \<open>currentBookings\<close> is the sum of \<open>party_size\<close> over the rows of the reservations
  table with the queried restaurant, date and time whose status is not \<open>cancelled\<close>,
  \<open>totalSeats\<close> is \<open>total_seats\<close>, or \<open>0\<close> when that is null, and \<open>available\<close> is exactly
  \<open>currentBookings + partySize \<le> totalSeats\<close>; both numbers are returned, and when the
  slot is unavailable the reason reports \<open>totalSeats - currentBookings\<close> remaining seats.
\<close>

theorem checkAvailability_capacity:
  assumes "single (filter (\<lambda>r. id_rest r = restaurant_id_chk check) (restaurants d)) = Inr rest"
  shows "current_bookings (checkAvailability d check) =
           Some (sum_list (map party_size
                   (filter (\<lambda>r. restaurant_id r = restaurant_id_chk check
                                \<and> reservation_date r = date check
                                \<and> reservation_time r = time check
                                \<and> status r \<noteq> Cancelled)
                      (reservations d))))
         \<and> total_seats_res (checkAvailability d check) =
             Some (case total_seats rest of None \<Rightarrow> 0 | Some seats \<Rightarrow> seats)
         \<and> available (checkAvailability d check) =
             (sum_list (map party_size
                (filter (\<lambda>r. restaurant_id r = restaurant_id_chk check
                             \<and> reservation_date r = date check
                             \<and> reservation_time r = time check
                             \<and> status r \<noteq> Cancelled)
                   (reservations d)))
              + party_size_chk check
              \<le> (case total_seats rest of None \<Rightarrow> 0 | Some seats \<Rightarrow> seats))
         \<and> (\<not> available (checkAvailability d check) \<longrightarrow>
              reason (checkAvailability d check) =
                Some (''Not enough seats available. ''
                      @ show_int ((case total_seats rest of None \<Rightarrow> 0 | Some seats \<Rightarrow> seats)
                                  - sum_list (map party_size
                                      (filter (\<lambda>r. restaurant_id r = restaurant_id_chk check
                                                   \<and> reservation_date r = date check
                                                   \<and> reservation_time r = time check
                                                   \<and> status r \<noteq> Cancelled)
                                         (reservations d))))
                      @ '' seats remaining.''))"
proof -
  have seats: "or_num (total_seats rest) 0
               = (case total_seats rest of None \<Rightarrow> 0 | Some seats \<Rightarrow> seats)"
    by (simp add: or_num_def split: option.splits)
  show ?thesis
    unfolding booked_def [symmetric] seats [symmetric]
    by (simp add: checkAvailability_found [OF assms] Let_def)
qed

lemma show_int_4: "show_int 4 = ''4''"
  by (simp add: show_int_def show_nat.simps digit_char_def)

lemma bistro_single:
  "single (filter (\<lambda>r. id_rest r = restaurant_id_chk (check_at n)) (restaurants db_A)) = Inr bistro"
  by (simp add: db_A_def bistro_def check_at_def)

lemma booked_db_A: "booked db_A ''r1'' ''2025-11-22'' ''19:00'' = 6"
  by (simp add: booked_def slot_rows_def db_A_def reservationA_def)

text \<open>
  The scenario: ten seats, six booked in the slot; a party of five is refused with four
  seats remaining, a party of four is accepted. The cancelled party in the slot and the
  parties of other slots and restaurants do not count.
\<close>

lemma check_at_sel:
  "date (check_at n) = ''2025-11-22''" "time (check_at n) = ''19:00''"
  "party_size_chk (check_at n) = n" "restaurant_id_chk (check_at n) = ''r1''"
  by (simp_all add: check_at_def)

lemma bistro_seats: "or_num (total_seats bistro) 0 = 10"
  by (simp add: bistro_def or_num_def)

lemma db_busy_slot:
  "sum_list (map party_size
     (filter (\<lambda>r. restaurant_id r = ''r1'' \<and> reservation_date r = ''2025-11-22''
                  \<and> reservation_time r = ''19:00'' \<and> status r \<noteq> Cancelled)
        (reservations db_busy))) = 6"
  by (simp add: db_busy_def reservationA_def)

lemma bistro_single_busy:
  "single (filter (\<lambda>r. id_rest r = restaurant_id_chk (check_at n)) (restaurants db_busy))
   = Inr bistro"
  by (simp add: db_busy_def bistro_def cafe_def check_at_def)

theorem checkAvailability_capacity_witness:
  "single (filter (\<lambda>r. id_rest r = restaurant_id_chk (check_at 5)) (restaurants db_busy))
     = Inr bistro
   \<and> current_bookings (checkAvailability db_busy (check_at 5)) = Some 6
   \<and> total_seats_res (checkAvailability db_busy (check_at 5)) = Some 10
   \<and> available (checkAvailability db_busy (check_at 5)) = False
   \<and> reason (checkAvailability db_busy (check_at 5))
       = Some ''Not enough seats available. 4 seats remaining.''
   \<and> available (checkAvailability db_busy (check_at 4)) = True"
proof -
  have seats: "total_seats bistro = Some 10"
    by (simp add: bistro_def)
  have "current_bookings (checkAvailability db_busy (check_at 5)) = Some 6
        \<and> total_seats_res (checkAvailability db_busy (check_at 5)) = Some 10
        \<and> available (checkAvailability db_busy (check_at 5)) = False
        \<and> reason (checkAvailability db_busy (check_at 5))
            = Some ''Not enough seats available. 4 seats remaining.''"
    using checkAvailability_capacity [OF bistro_single_busy [of 5]]
    by (simp add: check_at_sel db_busy_slot seats show_int_4)
  moreover have "available (checkAvailability db_busy (check_at 4)) = True"
    using checkAvailability_capacity [OF bistro_single_busy [of 4]]
    by (simp add: check_at_sel db_busy_slot seats)
  ultimately show ?thesis
    using bistro_single_busy [of 5] by simp
qed

section \<open>Restaurants without seats\<close>

lemma sum_list_party_nonneg:
  "\<forall>r\<in>set rows. 0 \<le> party_size r \<Longrightarrow> 0 \<le> sum_list (map party_size rows)"
  by (induction rows) simp_all

lemma booked_nonneg:
  assumes "\<forall>r\<in>set (reservations d). 0 \<le> party_size r"
  shows "0 \<le> booked d rid dt tm"
  unfolding booked_def slot_rows_def
  by (rule sum_list_party_nonneg) (use assms in simp)

text \<open>
  Claim C5, as the source has it. For a restaurant whose \<open>total_seats\<close> is zero or
  null, a request for a positive party size is available exactly when the seats booked
  in the slot plus the request are at most zero. So it is never available when the
  seats booked in the slot are not negative, in particular when no stored party size is
  negative. The source keeps no party size from being negative.
\<close>

theorem checkAvailability_no_seats:
  assumes found: "single (filter (\<lambda>r. id_rest r = restaurant_id_chk check) (restaurants d)) = Inr rest"
    and seats: "total_seats rest = None \<or> total_seats rest = Some 0"
    and party: "0 < party_size_chk check"
  shows "available (checkAvailability d check)
           = (booked d (restaurant_id_chk check) (date check) (time check)
                + party_size_chk check \<le> 0)
         \<and> (0 \<le> booked d (restaurant_id_chk check) (date check) (time check)
              \<longrightarrow> available (checkAvailability d check) = False)
         \<and> ((\<forall>r\<in>set (reservations d). 0 \<le> party_size r)
              \<longrightarrow> available (checkAvailability d check) = False)"
proof -
  have zero: "or_num (total_seats rest) 0 = 0"
    using seats by (auto simp: or_num_def)
  have iff: "available (checkAvailability d check)
           = (booked d (restaurant_id_chk check) (date check) (time check)
                + party_size_chk check \<le> 0)"
    by (simp add: checkAvailability_found [OF found] Let_def zero)
  have no: "available (checkAvailability d check) = False"
    if "0 \<le> booked d (restaurant_id_chk check) (date check) (time check)"
    using that party by (simp add: iff)
  have stored: "available (checkAvailability d check) = False"
    if "\<forall>r\<in>set (reservations d). 0 \<le> party_size r"
    using booked_nonneg [OF that] by (rule no)
  show ?thesis
    by (intro conjI impI) (rule iff, erule no, erule stored)
qed

lemma cafe_single:
  assumes "restaurants d = [bistro, cafe]"
  shows "single (filter (\<lambda>r. id_rest r = restaurant_id_chk check_cafe) (restaurants d)) = Inr cafe"
  using assms by (simp add: check_cafe_def bistro_def cafe_def)

theorem checkAvailability_no_seats_witness:
  "single (filter (\<lambda>r. id_rest r = restaurant_id_chk check_cafe) (restaurants db_cafe)) = Inr cafe
   \<and> total_seats cafe = None
   \<and> 0 < party_size_chk check_cafe
   \<and> booked db_cafe (restaurant_id_chk check_cafe) (date check_cafe) (time check_cafe) = 0
   \<and> list_all (\<lambda>r. 0 \<le> party_size r) (reservations db_cafe)
   \<and> available (checkAvailability db_cafe check_cafe) = False"
proof -
  have rest: "restaurants db_cafe = [bistro, cafe]"
    by (simp add: db_cafe_def)
  have seats: "total_seats cafe = None \<or> total_seats cafe = Some 0"
    by (simp add: cafe_def)
  have party: "0 < party_size_chk check_cafe"
    by (simp add: check_cafe_def)
  have none: "booked db_cafe (restaurant_id_chk check_cafe) (date check_cafe) (time check_cafe) = 0"
    by (simp add: booked_def check_cafe_def db_cafe_def reservationA_def)
  have stored: "list_all (\<lambda>r. 0 \<le> party_size r) (reservations db_cafe)"
    by (simp add: db_cafe_def reservationA_def)
  have "available (checkAvailability db_cafe check_cafe) = False"
    using checkAvailability_no_seats [OF cafe_single [OF rest] seats party] party
    by (simp add: none)
  then show ?thesis
    using cafe_single [OF rest] party none stored by (simp add: cafe_def)
qed

text \<open>
  The claim as the spec words it fails on a store the source produces itself. The
  restaurant has no seats (\<open>total_seats\<close> is null); \<open>createReservation\<close> accepts a party
  of \<open>-2\<close> there, since \<open>0 + (-2) > 0\<close> is false; after that a party of \<open>2\<close> is reported
  available.
\<close>

theorem checkAvailability_no_seats_counterexample:
  "total_seats cafe = None
   \<and> snd (createReservation db_cafe gen_B (input_cafe (- 2)))
       = Inr (new_row gen_B (input_cafe (- 2)))
   \<and> reservations (fst (createReservation db_cafe gen_B (input_cafe (- 2))))
       = [reservationA, new_row gen_B (input_cafe (- 2))]
   \<and> party_size_chk check_cafe = 2
   \<and> available (checkAvailability (fst (createReservation db_cafe gen_B (input_cafe (- 2))))
                  check_cafe) = True"
proof -
  let ?row = "new_row gen_B (input_cafe (- 2))"
  let ?d = "db_cafe\<lparr>reservations := reservations db_cafe @ [?row]\<rparr>"
  have chk: "check_of_input (input_cafe (- 2)) = check_cafe\<lparr>party_size_chk := - 2\<rparr>"
    by (simp add: check_of_input_def input_cafe_def input_at_def check_cafe_def)
  have found: "single (filter (\<lambda>r. id_rest r = restaurant_id_chk (check_cafe\<lparr>party_size_chk := p\<rparr>))
                 (restaurants d)) = Inr cafe"
    if "restaurants d = [bistro, cafe]" for d p
    using that by (simp add: check_cafe_def bistro_def cafe_def)
  have seats: "or_num (total_seats cafe) 0 = 0"
    by (simp add: cafe_def or_num_def)
  have rest: "restaurants db_cafe = [bistro, cafe]" "restaurants ?d = [bistro, cafe]"
    by (simp_all add: db_cafe_def)
  have first: "available (checkAvailability db_cafe (check_cafe\<lparr>party_size_chk := - 2\<rparr>))"
    by (simp add: checkAvailability_found [OF found [OF rest(1)]] Let_def seats)
       (simp add: booked_def check_cafe_def db_cafe_def reservationA_def)
  have created: "createReservation db_cafe gen_B (input_cafe (- 2)) = (?d, Inr ?row)"
    using first by (simp add: createReservation_def createReservation_resume_def chk)
  have row: "restaurant_id ?row = ''r2''" "reservation_date ?row = ''2025-11-22''"
    "reservation_time ?row = ''19:00''" "party_size ?row = - 2" "status ?row = Confirmed"
    by (simp_all add: new_row_def input_cafe_def input_at_def)
  have second: "available (checkAvailability ?d check_cafe)"
    using checkAvailability_found [OF found [OF rest(2), of 2]]
    by (simp add: Let_def seats check_cafe_def)
       (simp add: booked_def db_cafe_def reservationA_def row)
  show ?thesis
    unfolding created using second
    by (simp add: cafe_def check_cafe_def db_cafe_def)
qed

section \<open>Party sizes that are not positive\<close>

text \<open>
  Claim C6, as the source has it. \<open>checkAvailability\<close> validates nothing: for a party
  size \<open>\<le> 0\<close> and an existing restaurant it returns an ordinary availability result,
  with both numbers set and \<open>available\<close> decided by the same comparison as for any
  other size; when the slot is not already over capacity the request is reported
  available, with no reason. No \<open>InvalidInput\<close> exists in the source.
\<close>

theorem checkAvailability_nonpositive_party:
  assumes found: "single (filter (\<lambda>r. id_rest r = restaurant_id_chk check) (restaurants d)) = Inr rest"
    and party: "party_size_chk check \<le> 0"
  shows "current_bookings (checkAvailability d check) =
           Some (booked d (restaurant_id_chk check) (date check) (time check))
         \<and> total_seats_res (checkAvailability d check) = Some (or_num (total_seats rest) 0)
         \<and> available (checkAvailability d check) =
             (booked d (restaurant_id_chk check) (date check) (time check) + party_size_chk check
                \<le> or_num (total_seats rest) 0)
         \<and> (booked d (restaurant_id_chk check) (date check) (time check)
               \<le> or_num (total_seats rest) 0
             \<longrightarrow> available (checkAvailability d check)
                 \<and> reason (checkAvailability d check) = None)"
  using party by (simp add: checkAvailability_found [OF found] Let_def)

theorem checkAvailability_nonpositive_party_witness:
  "single (filter (\<lambda>r. id_rest r = restaurant_id_chk (check_at 0)) (restaurants db_A)) = Inr bistro
   \<and> party_size_chk (check_at 0) \<le> 0
   \<and> available (checkAvailability db_A (check_at 0))
   \<and> reason (checkAvailability db_A (check_at 0)) = None
   \<and> current_bookings (checkAvailability db_A (check_at 0)) = Some 6"
proof -
  have party: "party_size_chk (check_at 0) \<le> 0"
    by (simp add: check_at_sel)
  show ?thesis
    using checkAvailability_nonpositive_party [OF bistro_single [of 0] party] bistro_single [of 0]
    by (simp add: check_at_sel booked_db_A bistro_seats)
qed

text \<open>
  The claim as the spec words it fails: for party sizes \<open>0\<close> and \<open>-3\<close> the source
  returns an ordinary result, \<open>available = true\<close>, and no error.
\<close>

theorem checkAvailability_nonpositive_party_counterexample:
  "checkAvailability db_A (check_at 0)
     = \<lparr>available = True, reason = None, current_bookings = Some 6, total_seats_res = Some 10\<rparr>
   \<and> checkAvailability db_A (check_at (- 3))
     = \<lparr>available = True, reason = None, current_bookings = Some 6, total_seats_res = Some 10\<rparr>"
  by (simp add: checkAvailability_found [OF bistro_single] check_at_sel booked_db_A bistro_seats)

section \<open>Creating a reservation: check, then insert\<close>

lemma unavailable_reason:
  assumes "\<not> available (checkAvailability d check)"
  shows "\<exists>msg. reason (checkAvailability d check) = Some msg \<and> msg \<noteq> []"
  using assms
  by (auto simp: checkAvailability_def Let_def split: sum.splits if_splits)

text \<open>
  Claim C4. \<open>createReservation\<close> runs the availability check on the input's restaurant,
  date, time and party size. When the slot is unavailable the result is the error that
  carries the check's reason and the store is unchanged; otherwise one row is added to
  the store, built from the input with status \<open>confirmed\<close>, and returned.
\<close>

theorem createReservation_check_then_insert:
  "restaurant_id_chk (check_of_input input) = restaurant_id_in input
   \<and> date (check_of_input input) = reservation_date_in input
   \<and> time (check_of_input input) = reservation_time_in input
   \<and> party_size_chk (check_of_input input) = party_size_in input
   \<and> (\<not> available (checkAvailability d (check_of_input input)) \<longrightarrow>
        (\<exists>msg. reason (checkAvailability d (check_of_input input)) = Some msg
               \<and> createReservation d g input = (d, Inl (Message msg))))
   \<and> (available (checkAvailability d (check_of_input input)) \<longrightarrow>
        createReservation d g input
          = (d\<lparr>reservations := reservations d @ [new_row g input]\<rparr>, Inr (new_row g input))
        \<and> status (new_row g input) = Confirmed
        \<and> restaurant_id (new_row g input) = restaurant_id_in input
        \<and> reservation_date (new_row g input) = reservation_date_in input
        \<and> reservation_time (new_row g input) = reservation_time_in input
        \<and> party_size (new_row g input) = party_size_in input)"
proof -
  have sel: "restaurant_id_chk (check_of_input input) = restaurant_id_in input
      \<and> date (check_of_input input) = reservation_date_in input
      \<and> time (check_of_input input) = reservation_time_in input
      \<and> party_size_chk (check_of_input input) = party_size_in input"
    by (simp add: check_of_input_def)
  have no: "\<exists>msg. reason (checkAvailability d (check_of_input input)) = Some msg
               \<and> createReservation d g input = (d, Inl (Message msg))"
    if un: "\<not> available (checkAvailability d (check_of_input input))"
  proof -
    from unavailable_reason [OF un] obtain msg
      where msg: "reason (checkAvailability d (check_of_input input)) = Some msg" "msg \<noteq> []"
      by blast
    then have "createReservation d g input = (d, Inl (Message msg))"
      using un by (simp add: createReservation_def createReservation_resume_def or_str_def)
    with msg show ?thesis by blast
  qed
  have yes: "createReservation d g input
          = (d\<lparr>reservations := reservations d @ [new_row g input]\<rparr>, Inr (new_row g input))"
    if "available (checkAvailability d (check_of_input input))"
    using that by (simp add: createReservation_def createReservation_resume_def)
  have row: "status (new_row g input) = Confirmed
        \<and> restaurant_id (new_row g input) = restaurant_id_in input
        \<and> reservation_date (new_row g input) = reservation_date_in input
        \<and> reservation_time (new_row g input) = reservation_time_in input
        \<and> party_size (new_row g input) = party_size_in input"
    by (simp add: new_row_def)
  from sel no yes row show ?thesis by blast
qed

lemma check_of_input_at: "check_of_input (input_at n) = check_at n"
  by (simp add: check_of_input_def input_at_def check_at_def)

lemma check_at_5: 
  "available (checkAvailability db_A (check_at 5)) = False"
  "reason (checkAvailability db_A (check_at 5)) = Some ''Not enough seats available. 4 seats remaining.''"
  by (simp_all add: checkAvailability_found [OF bistro_single] check_at_sel booked_db_A
        bistro_seats show_int_4)

lemma check_at_4: "available (checkAvailability db_A (check_at 4)) = True"
  by (simp add: checkAvailability_found [OF bistro_single] check_at_sel booked_db_A bistro_seats)

theorem createReservation_check_then_insert_witness:
  "available (checkAvailability db_A (check_of_input (input_at 5))) = False
   \<and> createReservation db_A gen_B (input_at 5)
       = (db_A, Inl (Message ''Not enough seats available. 4 seats remaining.''))
   \<and> available (checkAvailability db_A (check_of_input (input_at 4))) = True
   \<and> createReservation db_A gen_B (input_at 4)
       = (db_A\<lparr>reservations := reservations db_A @ [new_row gen_B (input_at 4)]\<rparr>,
          Inr (new_row gen_B (input_at 4)))
   \<and> status (new_row gen_B (input_at 4)) = Confirmed"
proof -
  have "createReservation db_A gen_B (input_at 5)
       = (db_A, Inl (Message ''Not enough seats available. 4 seats remaining.''))"
    using createReservation_check_then_insert [of "input_at 5" db_A gen_B]
    by (simp add: check_of_input_at check_at_5)
  moreover have "createReservation db_A gen_B (input_at 4)
       = (db_A\<lparr>reservations := reservations db_A @ [new_row gen_B (input_at 4)]\<rparr>,
          Inr (new_row gen_B (input_at 4)))
      \<and> status (new_row gen_B (input_at 4)) = Confirmed"
    using createReservation_check_then_insert [of "input_at 4" db_A gen_B]
    by (simp add: check_of_input_at check_at_4)
  ultimately show ?thesis
    by (simp add: check_of_input_at check_at_5 check_at_4)
qed

section \<open>Cancelling\<close>

lemma update_rows_twice:
  assumes "\<And>r. id_res (f r) = id_res r" and "\<And>r. f (f r) = f r"
  shows "update_rows (update_rows d i f) i f = update_rows d i f"
  using assms by (simp add: update_rows_def)

lemma cancelled_rows:
  assumes "r \<in> set (map (\<lambda>r. if id_res r = i then r\<lparr>status := Cancelled\<rparr> else r) rows)"
    and "id_res r = i"
  shows "status r = Cancelled"
proof -
  from assms(1) obtain r0
    where r0: "r = (if id_res r0 = i then r0\<lparr>status := Cancelled\<rparr> else r0)"
    unfolding set_map by (rule imageE)
  show ?thesis
  proof (cases "id_res r0 = i")
    case True
    with r0 show ?thesis by simp
  next
    case False
    with r0 assms(2) show ?thesis by simp
  qed
qed

text \<open>
  Claim C8. \<open>cancelReservation\<close> sets the status of the reservation with the given id
  to \<open>cancelled\<close> whatever its status was, leaves every other row and the restaurants
  alone, and returns success. Cancelling again returns success again and leaves the
  store as the first cancellation left it.
\<close>

theorem cancelReservation_idempotent:
  "snd (cancelReservation d i) = \<lparr>success = True, error_c = None\<rparr>
   \<and> snd (cancelReservation (fst (cancelReservation d i)) i) = \<lparr>success = True, error_c = None\<rparr>
   \<and> fst (cancelReservation (fst (cancelReservation d i)) i) = fst (cancelReservation d i)
   \<and> restaurants (fst (cancelReservation d i)) = restaurants d
   \<and> reservations (fst (cancelReservation d i))
       = map (\<lambda>r. if id_res r = i then r\<lparr>status := Cancelled\<rparr> else r) (reservations d)
   \<and> (\<forall>r\<in>set (reservations (fst (cancelReservation d i))). id_res r = i \<longrightarrow> status r = Cancelled)"
proof -
  let ?c = "\<lambda>r::reservation. r\<lparr>status := Cancelled\<rparr>"
  have d1: "fst (cancelReservation d i) = update_rows d i ?c" for d
    by (simp add: cancelReservation_def)
  have r1: "snd (cancelReservation d i) = \<lparr>success = True, error_c = None\<rparr>" for d
    by (simp add: cancelReservation_def)
  have twice: "update_rows (update_rows d i ?c) i ?c = update_rows d i ?c"
    by (rule update_rows_twice) simp_all
  have rest: "restaurants (update_rows d i ?c) = restaurants d"
    by (simp add: update_rows_def)
  have rows: "reservations (update_rows d i ?c)
       = map (\<lambda>r. if id_res r = i then ?c r else r) (reservations d)"
    by (simp add: update_rows_def)
  have all: "\<forall>r\<in>set (reservations (update_rows d i ?c)). id_res r = i \<longrightarrow> status r = Cancelled"
    unfolding rows by (intro ballI impI) (rule cancelled_rows)
  show ?thesis
    unfolding d1 r1 twice by (intro conjI) (rule refl rest rows all)+
qed

theorem cancelReservation_idempotent_witness:
  "reservations (fst (cancelReservation db_AC ''C''))
     = [reservationA, reservationC\<lparr>status := Cancelled\<rparr>]
   \<and> fst (cancelReservation (fst (cancelReservation db_AC ''C'')) ''C'')
     = fst (cancelReservation db_AC ''C'')
   \<and> snd (cancelReservation db_AC ''C'') = \<lparr>success = True, error_c = None\<rparr>
   \<and> snd (cancelReservation (fst (cancelReservation db_AC ''C'')) ''C'')
     = \<lparr>success = True, error_c = None\<rparr>"
proof -
  have rows: "reservations db_AC = [reservationA, reservationC]"
    by (simp add: db_AC_def)
  have ids: "id_res reservationA \<noteq> ''C''" "id_res reservationC = ''C''"
    by (simp_all add: reservationA_def reservationC_def)
  show ?thesis
    using cancelReservation_idempotent [of db_AC "''C''"]
    by (simp add: rows ids)
qed

text \<open>
  Claim C10. For an id that no reservation has, \<open>cancelReservation\<close> changes nothing
  and still returns \<open>{ success: true, error: null }\<close>; the result is the one it returns
  for any other id \<open>j\<close>, so the caller cannot tell the two apart.
\<close>

theorem cancelReservation_unknown_id:
  assumes "\<forall>r\<in>set (reservations d). id_res r \<noteq> i"
  shows "cancelReservation d i = (d, \<lparr>success = True, error_c = None\<rparr>)
         \<and> snd (cancelReservation d j) = snd (cancelReservation d i)"
proof -
  have "map (\<lambda>r. if id_res r = i then r\<lparr>status := Cancelled\<rparr> else r) (reservations d)
        = reservations d"
    using assms by (simp add: map_idI)
  then show ?thesis
    by (simp add: cancelReservation_def update_rows_def)
qed

theorem cancelReservation_unknown_id_witness:
  "list_all (\<lambda>r. id_res r \<noteq> ''Z'') (reservations db_AC)
   \<and> cancelReservation db_AC ''Z'' = (db_AC, \<lparr>success = True, error_c = None\<rparr>)
   \<and> snd (cancelReservation db_AC ''A'') = snd (cancelReservation db_AC ''Z'')"
proof -
  have none: "\<forall>r\<in>set (reservations db_AC). id_res r \<noteq> ''Z''"
    by (simp add: db_AC_def reservationA_def reservationC_def)
  show ?thesis
    using cancelReservation_unknown_id [OF none, of "''A''"] none
    by (simp add: list_all_iff)
qed

section \<open>The summary\<close>

lemma count_reservation_fields:
  "total_reservations (count_reservation s r) = total_reservations s"
  "total_guests (count_reservation s r) = total_guests s + party_size r"
  "confirmed (count_reservation s r) = confirmed s + (if status r = Confirmed \<or> status r = Pending then 1 else 0)"
  "cancelled (count_reservation s r) = cancelled s + (if status r = Cancelled then 1 else 0)"
  "completed (count_reservation s r) = completed s + (if status r = Completed then 1 else 0)"
  "no_shows (count_reservation s r) = no_shows s + (if status r = NoShow then 1 else 0)"
  by (cases "status r"; simp add: count_reservation_def Let_def)+

lemma foldl_count_reservation:
  "total_reservations (foldl count_reservation s rows) = total_reservations s"
  "total_guests (foldl count_reservation s rows) = total_guests s + sum_list (map party_size rows)"
  "confirmed (foldl count_reservation s rows)
     = confirmed s + int (length (filter (\<lambda>r. status r = Confirmed \<or> status r = Pending) rows))"
  "cancelled (foldl count_reservation s rows)
     = cancelled s + int (length (filter (\<lambda>r. status r = Cancelled) rows))"
  "completed (foldl count_reservation s rows)
     = completed s + int (length (filter (\<lambda>r. status r = Completed) rows))"
  "no_shows (foldl count_reservation s rows)
     = no_shows s + int (length (filter (\<lambda>r. status r = NoShow) rows))"
  by (induction rows arbitrary: s; simp add: count_reservation_fields)+

lemma buckets_partition:
  "length (filter (\<lambda>r. status r = Confirmed \<or> status r = Pending) rows)
   + length (filter (\<lambda>r. status r = Cancelled) rows)
   + length (filter (\<lambda>r. status r = Completed) rows)
   + length (filter (\<lambda>r. status r = NoShow) rows) = length rows"
proof (induction rows)
  case Nil
  show ?case by simp
next
  case (Cons r rows)
  then show ?case by (cases "status r") simp_all
qed

text \<open>
  Claim C9. Over the rows the query returns (those of the restaurant, within the
  optional date range), \<open>getReservationSummary\<close> counts \<open>confirmed\<close> and \<open>pending\<close>
  rows in the bucket \<open>confirmed\<close>, and \<open>cancelled\<close>, \<open>completed\<close> and \<open>no-show\<close> rows
  each in their own bucket; the four buckets add up to the number of rows, so every row
  is counted in exactly one of them. \<open>total_guests\<close> is the sum of \<open>party_size\<close> over
  all the rows, whatever their status.
\<close>

theorem getReservationSummary_buckets:
  "total_reservations (getReservationSummary d rid date_from date_to)
     = int (length (summary_rows d rid date_from date_to))
   \<and> confirmed (getReservationSummary d rid date_from date_to)
     = int (length (filter (\<lambda>r. status r = Confirmed \<or> status r = Pending)
                          (summary_rows d rid date_from date_to)))
   \<and> cancelled (getReservationSummary d rid date_from date_to)
     = int (length (filter (\<lambda>r. status r = Cancelled) (summary_rows d rid date_from date_to)))
   \<and> completed (getReservationSummary d rid date_from date_to)
     = int (length (filter (\<lambda>r. status r = Completed) (summary_rows d rid date_from date_to)))
   \<and> no_shows (getReservationSummary d rid date_from date_to)
     = int (length (filter (\<lambda>r. status r = NoShow) (summary_rows d rid date_from date_to)))
   \<and> confirmed (getReservationSummary d rid date_from date_to)
       + cancelled (getReservationSummary d rid date_from date_to)
       + completed (getReservationSummary d rid date_from date_to)
       + no_shows (getReservationSummary d rid date_from date_to)
     = total_reservations (getReservationSummary d rid date_from date_to)
   \<and> total_guests (getReservationSummary d rid date_from date_to)
     = sum_list (map party_size (summary_rows d rid date_from date_to))"
proof -
  let ?rows = "summary_rows d rid date_from date_to"
  have "int (length (filter (\<lambda>r. status r = Confirmed \<or> status r = Pending) ?rows))
        + int (length (filter (\<lambda>r. status r = Cancelled) ?rows))
        + int (length (filter (\<lambda>r. status r = Completed) ?rows))
        + int (length (filter (\<lambda>r. status r = NoShow) ?rows)) = int (length ?rows)"
    using buckets_partition [of ?rows] by linarith
  then show ?thesis
    by (simp add: getReservationSummary_def Let_def foldl_count_reservation)
qed

text \<open>Two runs on the example store: an open range, and a range that leaves a row out.\<close>

lemma summary_example:
  "getReservationSummary db_AC ''r1'' (Some ''2025-11-01'') None
     = \<lparr>total_reservations = 2, confirmed = 1, cancelled = 0, completed = 1, no_shows = 0,
        total_guests = 9\<rparr>"
  "getReservationSummary db_AC ''r1'' (Some ''2025-11-21'') (Some ''2025-11-30'')
     = \<lparr>total_reservations = 1, confirmed = 1, cancelled = 0, completed = 0, no_shows = 0,
        total_guests = 6\<rparr>"
  by (simp_all add: getReservationSummary_def summary_rows_def gte_date_def lte_date_def
        truthy_str_def or_str_def db_AC_def reservationA_def reservationC_def
        count_reservation_def Let_def)

section \<open>Updating: when the capacity check runs\<close>

lemma getReservationById_Some:
  "(getReservationById d i = Some cur) = (filter (\<lambda>r. id_res r = i) (reservations d) = [cur])"
proof (cases "filter (\<lambda>r. id_res r = i) (reservations d)")
  case Nil
  then show ?thesis by (simp add: getReservationById_def)
next
  case (Cons r rs)
  then show ?thesis by (cases rs) (auto simp: getReservationById_def)
qed

lemma getReservationById_None:
  "getReservationById d i = None
   \<Longrightarrow> single (filter (\<lambda>r. id_res r = i) (reservations d)) = Inl NotSingleRow"
  by (cases "single (filter (\<lambda>r. id_res r = i) (reservations d))")
     (simp_all add: getReservationById_def, metis store_error.exhaust)

lemma id_res_apply_patch: "id_res (apply_patch input r) = id_res r"
  by (simp add: apply_patch_def)

lemma filter_id_update:
  assumes "\<And>r. id_res (f r) = id_res r"
  shows "filter (\<lambda>r. id_res r = i) (map (\<lambda>r. if id_res r = i then f r else r) rows)
         = map f (filter (\<lambda>r. id_res r = i) rows)"
  using assms by (induction rows) simp_all

lemma updated_rows_with_id:
  "filter (\<lambda>r. id_res r = i) (reservations (update_rows d i (apply_patch input)))
   = map (apply_patch input) (filter (\<lambda>r. id_res r = i) (reservations d))"
  by (simp add: update_rows_def filter_id_update id_res_apply_patch)

lemma single_map_Inl: "single rows = Inl e \<Longrightarrow> single (map f rows) = Inl e"
  by (cases rows rule: single.cases) simp_all

lemma update_write_found:
  assumes "getReservationById d i = Some cur"
  shows "update_write d i input
         = (update_rows d i (apply_patch input), Inr (apply_patch input cur))"
  using assms
  by (simp add: update_write_def Let_def updated_rows_with_id getReservationById_Some)

lemma update_write_absent:
  assumes "getReservationById d i = None"
  shows "update_write d i input
         = (update_rows d i (apply_patch input), Inl (StoreFailure NotSingleRow))"
  using single_map_Inl [OF getReservationById_None [OF assms], of "apply_patch input"]
  by (simp add: update_write_def Let_def updated_rows_with_id)

lemma rechecks_iff:
  "rechecks input =
     ((\<exists>v. reservation_date_up input = Some v \<and> v \<noteq> [])
      \<or> (\<exists>v. reservation_time_up input = Some v \<and> v \<noteq> [])
      \<or> (\<exists>n. party_size_up input = Some n \<and> n \<noteq> 0))"
  by (simp add: rechecks_def truthy_str_def truthy_num_def split: option.splits)

text \<open>
  The branches of \<open>updateReservation\<close>, one by one. When the guard holds, an absent
  reservation gives \<open>'Reservation not found'\<close> and an unavailable slot gives the
  check's reason, both with the store unchanged, and an available slot lets the patch
  through. When the guard does not hold the patch goes to the write at once.
\<close>

lemma updateReservation_branches:
  "rechecks input =
     ((\<exists>v. reservation_date_up input = Some v \<and> v \<noteq> [])
      \<or> (\<exists>v. reservation_time_up input = Some v \<and> v \<noteq> [])
      \<or> (\<exists>n. party_size_up input = Some n \<and> n \<noteq> 0))
   \<and> (rechecks input \<and> getReservationById d i = None \<longrightarrow>
        updateReservation d i input = (d, Inl (Message ''Reservation not found'')))
   \<and> (rechecks input \<and> getReservationById d i = Some cur
        \<and> \<not> available (checkAvailability d (merged_check input cur)) \<longrightarrow>
        (\<exists>msg. reason (checkAvailability d (merged_check input cur)) = Some msg
               \<and> updateReservation d i input = (d, Inl (Message msg))))
   \<and> (rechecks input \<and> getReservationById d i = Some cur
        \<and> available (checkAvailability d (merged_check input cur)) \<longrightarrow>
        updateReservation d i input
          = (update_rows d i (apply_patch input), Inr (apply_patch input cur)))
   \<and> (\<not> rechecks input \<longrightarrow>
        updateReservation d i input
          = (update_rows d i (apply_patch input),
             case getReservationById d i of
               None \<Rightarrow> Inl (StoreFailure NotSingleRow)
             | Some current \<Rightarrow> Inr (apply_patch input current)))"
proof (intro conjI impI)
  show "rechecks input =
     ((\<exists>v. reservation_date_up input = Some v \<and> v \<noteq> [])
      \<or> (\<exists>v. reservation_time_up input = Some v \<and> v \<noteq> [])
      \<or> (\<exists>n. party_size_up input = Some n \<and> n \<noteq> 0))"
    by (rule rechecks_iff)
next
  assume "rechecks input \<and> getReservationById d i = None"
  then show "updateReservation d i input = (d, Inl (Message ''Reservation not found''))"
    by (simp add: updateReservation_def)
next
  assume a: "rechecks input \<and> getReservationById d i = Some cur
        \<and> \<not> available (checkAvailability d (merged_check input cur))"
  then obtain msg
    where msg: "reason (checkAvailability d (merged_check input cur)) = Some msg" "msg \<noteq> []"
    using unavailable_reason by blast
  with a have "updateReservation d i input = (d, Inl (Message msg))"
    by (simp add: updateReservation_def Let_def or_str_def)
  with msg show "\<exists>msg. reason (checkAvailability d (merged_check input cur)) = Some msg
               \<and> updateReservation d i input = (d, Inl (Message msg))"
    by simp
next
  assume "rechecks input \<and> getReservationById d i = Some cur
        \<and> available (checkAvailability d (merged_check input cur))"
  then show "updateReservation d i input
          = (update_rows d i (apply_patch input), Inr (apply_patch input cur))"
    by (simp add: updateReservation_def Let_def update_write_found)
next
  assume n: "\<not> rechecks input"
  show "updateReservation d i input
          = (update_rows d i (apply_patch input),
             case getReservationById d i of
               None \<Rightarrow> Inl (StoreFailure NotSingleRow)
             | Some current \<Rightarrow> Inr (apply_patch input current))"
  proof (cases "getReservationById d i")
    case None
    with n show ?thesis by (simp add: updateReservation_def update_write_absent)
  next
    case (Some current)
    with n show ?thesis by (simp add: updateReservation_def update_write_found)
  qed
qed

lemma db_A_by_id:
  "getReservationById db_A ''A'' = Some reservationA"
  "getReservationById db_A ''Z'' = None"
  by (simp_all add: getReservationById_def db_A_def reservationA_def)

lemma rechecks_examples:
  "n \<noteq> 0 \<Longrightarrow> rechecks (patch_party n)"
  "\<not> rechecks (patch_party 0)"
  "\<not> rechecks (patch_status s)"
  by (simp_all add: rechecks_def patch_party_def patch_status_def no_patch_def
        truthy_str_def truthy_num_def)

lemma merged_check_party:
  "n \<noteq> 0 \<Longrightarrow> merged_check (patch_party n) reservationA = check_at n"
  by (simp add: merged_check_def patch_party_def no_patch_def reservationA_def check_at_def
        or_str_def or_num_def)

lemma check_at_8:
  "available (checkAvailability db_A (check_at 8)) = False"
  "reason (checkAvailability db_A (check_at 8)) = Some ''Not enough seats available. 4 seats remaining.''"
  by (simp_all add: checkAvailability_found [OF bistro_single] check_at_sel booked_db_A
        bistro_seats show_int_4)

lemma update_rows_db_A:
  "reservations (update_rows db_A ''A'' f) = [f reservationA]"
  "restaurants (update_rows db_A ''A'' f) = [bistro]"
  by (simp_all add: update_rows_def db_A_def reservationA_def)

lemma apply_patch_examples:
  "apply_patch (patch_party n) r = r\<lparr>party_size := n\<rparr>"
  "apply_patch (patch_status s) r = r\<lparr>status := s\<rparr>"
  by (simp_all add: apply_patch_def patch_party_def patch_status_def no_patch_def)

lemma updateReservation_branches_examples:
  "updateReservation db_A ''Z'' (patch_party 8) = (db_A, Inl (Message ''Reservation not found''))
   \<and> updateReservation db_A ''A'' (patch_party 8)
       = (db_A, Inl (Message ''Not enough seats available. 4 seats remaining.''))
   \<and> snd (updateReservation db_A ''A'' (patch_party 4)) = Inr (reservationA\<lparr>party_size := 4\<rparr>)
   \<and> reservations (fst (updateReservation db_A ''A'' (patch_party 4)))
       = [reservationA\<lparr>party_size := 4\<rparr>]
   \<and> snd (updateReservation db_A ''A'' (patch_status Completed))
       = Inr (reservationA\<lparr>status := Completed\<rparr>)
   \<and> reservations (fst (updateReservation db_A ''A'' (patch_status Completed)))
       = [reservationA\<lparr>status := Completed\<rparr>]"
proof -
  have absent: "updateReservation db_A ''Z'' (patch_party 8)
      = (db_A, Inl (Message ''Reservation not found''))"
    using updateReservation_branches [of "patch_party 8" db_A "''Z''" reservationA]
    by (simp add: rechecks_examples db_A_by_id)
  have full: "updateReservation db_A ''A'' (patch_party 8)
      = (db_A, Inl (Message ''Not enough seats available. 4 seats remaining.''))"
    using updateReservation_branches [of "patch_party 8" db_A "''A''" reservationA]
    by (simp add: rechecks_examples db_A_by_id merged_check_party check_at_8)
  have fits: "updateReservation db_A ''A'' (patch_party 4)
      = (update_rows db_A ''A'' (apply_patch (patch_party 4)),
         Inr (apply_patch (patch_party 4) reservationA))"
    using updateReservation_branches [of "patch_party 4" db_A "''A''" reservationA]
    by (simp add: rechecks_examples db_A_by_id merged_check_party check_at_4)
  have direct: "updateReservation db_A ''A'' (patch_status Completed)
      = (update_rows db_A ''A'' (apply_patch (patch_status Completed)),
         Inr (apply_patch (patch_status Completed) reservationA))"
    using updateReservation_branches [of "patch_status Completed" db_A "''A''" reservationA]
    by (simp add: rechecks_examples db_A_by_id)
  show ?thesis
    unfolding absent full fits direct
    by (simp add: update_rows_db_A apply_patch_examples)
qed

text \<open>
  Claim C7. The source states the rule in its comment, \<open>If changing
  date/time/party_size, check availability\<close>, and the claim repeats it: a patch that
  touches one of the three loads the current record and fails with
  \<open>'Reservation not found'\<close> when there is none. The guard tests the three values for
  truthiness, so a patch that touches the party size with the value \<open>0\<close> is taken for
  one that does not touch it. For the id \<open>Z\<close>, which no reservation has, the patch
  \<open>{ party_size: 0 }\<close> skips the lookup and the check and reaches the write, whose
  \<open>.single()\<close> error is returned; the patch \<open>{ party_size: 8 }\<close> on the same id is
  answered with \<open>'Reservation not found'\<close>.
\<close>

theorem updateReservation_zero_party_size:
  "party_size_up (patch_party 0) = Some 0
   \<and> getReservationById db_A ''Z'' = None
   \<and> rechecks (patch_party 0) = False
   \<and> updateReservation db_A ''Z'' (patch_party 0) = (db_A, Inl (StoreFailure NotSingleRow))
   \<and> updateReservation db_A ''Z'' (patch_party 0)
       \<noteq> (db_A, Inl (Message ''Reservation not found''))
   \<and> updateReservation db_A ''Z'' (patch_party 8)
       = (db_A, Inl (Message ''Reservation not found''))"
proof -
  have "update_rows db_A ''Z'' f = db_A" for f
    by (simp add: update_rows_def db_A_def reservationA_def)
  then have "updateReservation db_A ''Z'' (patch_party 0) = (db_A, Inl (StoreFailure NotSingleRow))"
    by (simp add: updateReservation_def rechecks_examples update_write_absent db_A_by_id)
  moreover have "updateReservation db_A ''Z'' (patch_party 8)
       = (db_A, Inl (Message ''Reservation not found''))"
    by (simp add: updateReservation_def rechecks_examples db_A_by_id)
  ultimately show ?thesis
    by (simp add: patch_party_def db_A_by_id rechecks_examples [unfolded patch_party_def])
qed

section \<open>Updating: what the re-run check counts\<close>

lemma sum_list_filter_split:
  fixes f :: "'a \<Rightarrow> int"
  shows "sum_list (map f (filter P rows))
   = sum_list (map f (filter P (filter Q rows)))
     + sum_list (map f (filter P (filter (\<lambda>r. \<not> Q r) rows)))"
  by (induction rows) (simp_all add: ac_simps)

lemma booked_counts_itself:
  assumes cur: "getReservationById d i = Some cur"
    and active: "status cur \<noteq> Cancelled"
  shows "booked d (restaurant_id cur) (reservation_date cur) (reservation_time cur)
         = booked_excluding d i (restaurant_id cur) (reservation_date cur) (reservation_time cur)
           + party_size cur"
proof -
  let ?P = "\<lambda>r. restaurant_id r = restaurant_id cur \<and> reservation_date r = reservation_date cur
                 \<and> reservation_time r = reservation_time cur \<and> status r \<noteq> Cancelled"
  have one: "filter (\<lambda>r. id_res r = i) (reservations d) = [cur]"
    using cur by (simp add: getReservationById_Some)
  have "sum_list (map party_size (filter ?P (reservations d)))
        = sum_list (map party_size (filter ?P (filter (\<lambda>r. id_res r = i) (reservations d))))
          + sum_list (map party_size (filter ?P (filter (\<lambda>r. \<not> id_res r = i) (reservations d))))"
    by (rule sum_list_filter_split)
  also have "filter ?P (filter (\<lambda>r. id_res r = i) (reservations d)) = [cur]"
    unfolding one using active by simp
  also have "filter ?P (filter (\<lambda>r. \<not> id_res r = i) (reservations d))
             = filter (\<lambda>r. id_res r \<noteq> i) (filter ?P (reservations d))"
    by (simp add: conj_commute)
  finally show ?thesis
    by (simp add: booked_def booked_excluding_def slot_rows_def)
qed

lemma updateReservation_ok_iff:
  assumes "rechecks input" and "getReservationById d i = Some cur"
  shows "(\<exists>row. snd (updateReservation d i input) = Inr row)
         = available (checkAvailability d (merged_check input cur))"
  using assms by (simp add: updateReservation_def Let_def update_write_found)

lemma merged_check_patched:
  assumes "reservation_date_up input \<noteq> Some []" and "reservation_time_up input \<noteq> Some []"
    and "party_size_up input \<noteq> Some 0"
  shows "merged_check input cur
         = \<lparr>date = reservation_date (apply_patch input cur),
            time = reservation_time (apply_patch input cur),
            party_size_chk = party_size (apply_patch input cur),
            restaurant_id_chk = restaurant_id cur\<rparr>"
  using assms
  by (simp add: merged_check_def apply_patch_def or_str_def or_num_def split: option.splits)

lemma rechecks_supplied:
  assumes "reservation_date_up input \<noteq> None \<or> reservation_time_up input \<noteq> None
           \<or> party_size_up input \<noteq> None"
    and "reservation_date_up input \<noteq> Some []" and "reservation_time_up input \<noteq> Some []"
    and "party_size_up input \<noteq> Some 0"
  shows "rechecks input"
  using assms
  by (auto simp: rechecks_def truthy_str_def truthy_num_def split: option.splits)

text \<open>
  Claim C2, as the source has it. \<open>checkAvailability\<close> has no \<open>excludeReservationId\<close>:
  the check that \<open>updateReservation\<close> re-runs sums every non-cancelled reservation of
  the target slot, the updated one included. For a patch that supplies a date, a time
  or a party size (no supplied date or time empty, no supplied party size \<open>0\<close>), an
  existing reservation and an existing restaurant, the update goes through exactly when
  the seats booked in the slot the reservation has after the patch, plus the party size
  it has after the patch, fit \<open>total_seats\<close> (\<open>0\<close> when null). For a non-cancelled
  reservation that stays in its slot the seats booked are the other reservations' seats
  plus its own current party size, so its current and its new party size are both
  counted.
\<close>

theorem updateReservation_counts_itself:
  assumes supplied: "reservation_date_up input \<noteq> None \<or> reservation_time_up input \<noteq> None
                     \<or> party_size_up input \<noteq> None"
    and nonfalsy: "reservation_date_up input \<noteq> Some []" "reservation_time_up input \<noteq> Some []"
      "party_size_up input \<noteq> Some 0"
    and cur: "getReservationById d i = Some cur"
    and found: "single (filter (\<lambda>r. id_rest r = restaurant_id cur) (restaurants d)) = Inr rest"
  shows "(\<exists>row. snd (updateReservation d i input) = Inr row)
         = (booked d (restaurant_id cur) (reservation_date (apply_patch input cur))
                     (reservation_time (apply_patch input cur))
              + party_size (apply_patch input cur)
            \<le> (case total_seats rest of None \<Rightarrow> 0 | Some seats \<Rightarrow> seats))
         \<and> (status cur \<noteq> Cancelled
              \<and> reservation_date (apply_patch input cur) = reservation_date cur
              \<and> reservation_time (apply_patch input cur) = reservation_time cur \<longrightarrow>
            (\<exists>row. snd (updateReservation d i input) = Inr row)
            = (booked_excluding d i (restaurant_id cur) (reservation_date cur)
                                (reservation_time cur)
                 + party_size cur + party_size (apply_patch input cur)
               \<le> (case total_seats rest of None \<Rightarrow> 0 | Some seats \<Rightarrow> seats)))"
proof -
  let ?new = "apply_patch input cur"
  have guard: "rechecks input"
    using supplied nonfalsy by (rule rechecks_supplied)
  have merged: "merged_check input cur
         = \<lparr>date = reservation_date ?new, time = reservation_time ?new,
            party_size_chk = party_size ?new, restaurant_id_chk = restaurant_id cur\<rparr>"
    using nonfalsy by (rule merged_check_patched)
  have found': "single (filter (\<lambda>r. id_rest r = restaurant_id_chk (merged_check input cur))
                 (restaurants d)) = Inr rest"
    using found by (simp add: merged)
  have seats: "or_num (total_seats rest) 0
               = (case total_seats rest of None \<Rightarrow> 0 | Some seats \<Rightarrow> seats)"
    by (simp add: or_num_def split: option.splits)
  have ok: "(\<exists>row. snd (updateReservation d i input) = Inr row)
         = (booked d (restaurant_id cur) (reservation_date ?new) (reservation_time ?new)
              + party_size ?new
            \<le> (case total_seats rest of None \<Rightarrow> 0 | Some seats \<Rightarrow> seats))"
    unfolding updateReservation_ok_iff [OF guard cur] seats [symmetric]
    by (simp add: checkAvailability_found [OF found'] Let_def) (simp add: merged)
  show ?thesis
  proof (intro conjI impI)
    show "(\<exists>row. snd (updateReservation d i input) = Inr row)
         = (booked d (restaurant_id cur) (reservation_date ?new) (reservation_time ?new)
              + party_size ?new
            \<le> (case total_seats rest of None \<Rightarrow> 0 | Some seats \<Rightarrow> seats))"
      by (rule ok)
  next
    assume same: "status cur \<noteq> Cancelled
              \<and> reservation_date ?new = reservation_date cur
              \<and> reservation_time ?new = reservation_time cur"
    then have "booked d (restaurant_id cur) (reservation_date ?new) (reservation_time ?new)
          = booked_excluding d i (restaurant_id cur) (reservation_date cur)
                                (reservation_time cur) + party_size cur"
      using booked_counts_itself [OF cur] by simp
    with ok show "(\<exists>row. snd (updateReservation d i input) = Inr row)
            = (booked_excluding d i (restaurant_id cur) (reservation_date cur)
                                (reservation_time cur)
                 + party_size cur + party_size ?new
               \<le> (case total_seats rest of None \<Rightarrow> 0 | Some seats \<Rightarrow> seats))"
      by simp
  qed
qed

lemma bistro_single_A:
  "single (filter (\<lambda>r. id_rest r = restaurant_id reservationA) (restaurants db_A)) = Inr bistro"
  by (simp add: db_A_def bistro_def reservationA_def)

lemma booked_excluding_db_A:
  "booked_excluding db_A ''A'' ''r1'' ''2025-11-22'' ''19:00'' = 0"
  by (simp add: booked_excluding_def db_A_def reservationA_def)

lemma reservationA_sel:
  "restaurant_id reservationA = ''r1''" "reservation_date reservationA = ''2025-11-22''"
  "reservation_time reservationA = ''19:00''" "party_size reservationA = 6"
  "status reservationA = Confirmed"
  by (simp_all add: reservationA_def)

lemma patch_party_fields:
  "reservation_date_up (patch_party n) = None" "reservation_time_up (patch_party n) = None"
  "party_size_up (patch_party n) = Some n"
  by (simp_all add: patch_party_def no_patch_def)

theorem updateReservation_counts_itself_witness:
  "party_size_up (patch_party 8) = Some 8
   \<and> reservation_date_up (patch_party 8) = None
   \<and> reservation_time_up (patch_party 8) = None
   \<and> getReservationById db_A ''A'' = Some reservationA
   \<and> single (filter (\<lambda>r. id_rest r = restaurant_id reservationA) (restaurants db_A)) = Inr bistro
   \<and> total_seats bistro = Some 10
   \<and> booked_excluding db_A ''A'' ''r1'' ''2025-11-22'' ''19:00'' = 0
   \<and> party_size reservationA = 6
   \<and> \<not> (\<exists>row. snd (updateReservation db_A ''A'' (patch_party 8)) = Inr row)
   \<and> (\<exists>row. snd (updateReservation db_A ''A'' (patch_party 4)) = Inr row)"
proof -
  have supplied: "reservation_date_up (patch_party n) \<noteq> None
                  \<or> reservation_time_up (patch_party n) \<noteq> None
                  \<or> party_size_up (patch_party n) \<noteq> None" for n
    by (simp add: patch_party_fields)
  have dt: "reservation_date_up (patch_party n) \<noteq> Some []"
    and tm: "reservation_time_up (patch_party n) \<noteq> Some []" for n
    by (simp_all add: patch_party_fields)
  have p8: "party_size_up (patch_party 8) \<noteq> Some 0"
    and p4: "party_size_up (patch_party 4) \<noteq> Some 0"
    by (simp_all add: patch_party_fields)
  have seats: "total_seats bistro = Some 10"
    by (simp add: bistro_def)
  have "\<not> (\<exists>row. snd (updateReservation db_A ''A'' (patch_party 8)) = Inr row)"
    using updateReservation_counts_itself [OF supplied dt tm p8 db_A_by_id(1) bistro_single_A]
    by (simp add: apply_patch_examples reservationA_sel booked_excluding_db_A booked_db_A seats)
  moreover have "\<exists>row. snd (updateReservation db_A ''A'' (patch_party 4)) = Inr row"
    using updateReservation_counts_itself [OF supplied dt tm p4 db_A_by_id(1) bistro_single_A]
    by (simp add: apply_patch_examples reservationA_sel booked_excluding_db_A booked_db_A seats)
  ultimately show ?thesis
    using bistro_single_A
    by (simp add: db_A_by_id booked_excluding_db_A reservationA_sel(4) patch_party_fields seats)
qed

text \<open>
  The scenario of the claim: ten seats, reservation A for six the only reservation, and
  its party size changed to eight. The source refuses the update: it adds the eight to
  the six that A already holds.
\<close>

theorem updateReservation_counts_itself_counterexample:
  "reservations db_A = [reservationA]
   \<and> total_seats bistro = Some 10
   \<and> updateReservation db_A ''A'' (patch_party 8)
       = (db_A, Inl (Message ''Not enough seats available. 4 seats remaining.''))"
  by (simp add: updateReservation_def rechecks_examples db_A_by_id merged_check_party
        check_at_8 or_str_def Let_def)
     (simp add: db_A_def bistro_def)

section \<open>The capacity invariant over sequences of operations\<close>

lemma createReservation_store:
  "fst (createReservation d g input)
   = (if available (checkAvailability d (check_of_input input))
      then d\<lparr>reservations := reservations d @ [new_row g input]\<rparr> else d)"
  by (simp add: createReservation_def createReservation_resume_def)

lemma booked_append:
  "booked (d\<lparr>reservations := reservations d @ [r]\<rparr>) rid dt tm
   = booked d rid dt tm
     + (if restaurant_id r = rid \<and> reservation_date r = dt \<and> reservation_time r = tm
           \<and> status r \<noteq> Cancelled then party_size r else 0)"
  by (simp add: booked_def slot_rows_def)

lemma or_num_Some: "or_num (Some n) 0 = n"
  by (simp add: or_num_def)

lemma create_keeps_capacity:
  assumes found: "single (filter (\<lambda>r. id_rest r = rid) (restaurants d)) = Inr rest"
    and seats: "total_seats rest = Some n"
    and inv: "booked d rid dt tm \<le> n"
  shows "booked (fst (createReservation d g input)) rid dt tm \<le> n"
proof (cases "available (checkAvailability d (check_of_input input))")
  case False
  with inv show ?thesis by (simp add: createReservation_store)
next
  case True
  show ?thesis
  proof (cases "restaurant_id_in input = rid \<and> reservation_date_in input = dt
                \<and> reservation_time_in input = tm")
    case False
    with True inv show ?thesis
      by (auto simp: createReservation_store booked_append new_row_def)
  next
    case slot: True
    have sel: "restaurant_id_chk (check_of_input input) = rid"
      "date (check_of_input input) = dt" "time (check_of_input input) = tm"
      "party_size_chk (check_of_input input) = party_size_in input"
      using slot by (simp_all add: check_of_input_def)
    have found': "single (filter (\<lambda>r. id_rest r = restaurant_id_chk (check_of_input input))
                    (restaurants d)) = Inr rest"
      using found by (simp add: sel)
    have "booked d rid dt tm + party_size_in input \<le> n"
      using True by (simp add: checkAvailability_found [OF found'] Let_def sel seats or_num_Some
          split: if_splits)
    with True slot show ?thesis
      by (simp add: createReservation_store booked_append new_row_def)
  qed
qed

lemma cancel_sum_le:
  assumes "\<forall>r\<in>set rows. 0 \<le> party_size r"
  shows "sum_list (map party_size
           (filter (\<lambda>r. P r \<and> status r \<noteq> Cancelled)
              (map (\<lambda>r. if id_res r = i then r\<lparr>status := Cancelled\<rparr> else r) rows)))
         \<le> sum_list (map party_size (filter (\<lambda>r. P r \<and> status r \<noteq> Cancelled) rows))"
  using assms
proof (induction rows)
  case Nil
  show ?case by simp
next
  case (Cons a rows)
  then have ih: "sum_list (map party_size
           (filter (\<lambda>r. P r \<and> status r \<noteq> Cancelled)
              (map (\<lambda>r. if id_res r = i then r\<lparr>status := Cancelled\<rparr> else r) rows)))
         \<le> sum_list (map party_size (filter (\<lambda>r. P r \<and> status r \<noteq> Cancelled) rows))"
    and a: "0 \<le> party_size a"
    by simp_all
  show ?case
  proof (cases "id_res a = i")
    case True
    with ih a show ?thesis by simp
  next
    case False
    with ih show ?thesis by simp
  qed
qed

lemma cancel_lowers_booked:
  assumes "\<forall>r\<in>set (reservations d). 0 \<le> party_size r"
  shows "booked (fst (cancelReservation d i)) rid dt tm \<le> booked d rid dt tm"
  using cancel_sum_le [OF assms,
      of "\<lambda>r. restaurant_id r = rid \<and> reservation_date r = dt \<and> reservation_time r = tm" i]
  by (simp add: booked_def slot_rows_def cancelReservation_def update_rows_def conj_assoc)

lemma run_op_restaurants: "restaurants (run_op d op) = restaurants d"
  by (cases op)
     (simp_all add: createReservation_store cancelReservation_def update_rows_def)

lemma nonneg_map_cancel:
  assumes "\<forall>r\<in>set rows. 0 \<le> party_size r"
  shows "\<forall>r\<in>set (map (\<lambda>r. if id_res r = i then r\<lparr>status := Cancelled\<rparr> else r) rows).
           0 \<le> party_size r"
  using assms by (induction rows) simp_all

lemma run_op_nonneg:
  assumes stored: "\<forall>r\<in>set (reservations d). 0 \<le> party_size r"
    and input: "\<And>g input. op = Create g input \<Longrightarrow> 0 \<le> party_size_in input"
  shows "\<forall>r\<in>set (reservations (run_op d op)). 0 \<le> party_size r"
proof (cases op)
  case (Create g input)
  with input have "0 \<le> party_size (new_row g input)"
    by (simp add: new_row_def)
  with stored Create show ?thesis
    by (simp add: createReservation_store)
next
  case (Cancel i)
  with nonneg_map_cancel [OF stored, of i] show ?thesis
    by (simp add: cancelReservation_def update_rows_def)
qed

lemma run_op_capacity:
  assumes found: "single (filter (\<lambda>r. id_rest r = rid) (restaurants d)) = Inr rest"
    and seats: "total_seats rest = Some n"
    and stored: "\<forall>r\<in>set (reservations d). 0 \<le> party_size r"
    and inv: "booked d rid dt tm \<le> n"
  shows "booked (run_op d op) rid dt tm \<le> n"
proof (cases op)
  case (Create g input)
  with create_keeps_capacity [OF found seats inv] show ?thesis by simp
next
  case (Cancel i)
  with cancel_lowers_booked [OF stored, of i rid dt tm] inv show ?thesis by simp
qed

lemma run_ops_invariant:
  assumes "single (filter (\<lambda>r. id_rest r = rid) (restaurants d)) = Inr rest"
    and "total_seats rest = Some n"
    and "\<forall>r\<in>set (reservations d). 0 \<le> party_size r"
    and "\<forall>g input. Create g input \<in> set ops \<longrightarrow> 0 \<le> party_size_in input"
    and "booked d rid dt tm \<le> n"
  shows "booked (run_ops d ops) rid dt tm \<le> n"
  using assms
proof (induction ops arbitrary: d)
  case Nil
  then show ?case by (simp add: run_ops_def)
next
  case (Cons op ops)
  have found: "single (filter (\<lambda>r. id_rest r = rid) (restaurants (run_op d op))) = Inr rest"
    using Cons.prems(1) by (simp add: run_op_restaurants)
  have stored: "\<forall>r\<in>set (reservations (run_op d op)). 0 \<le> party_size r"
    using Cons.prems(3)
  proof (rule run_op_nonneg)
    fix g input
    assume "op = Create g input"
    with Cons.prems(4) show "0 \<le> party_size_in input" by simp
  qed
  have rest_ops: "\<forall>g input. Create g input \<in> set ops \<longrightarrow> 0 \<le> party_size_in input"
    using Cons.prems(4) by simp
  have inv: "booked (run_op d op) rid dt tm \<le> n"
    using Cons.prems(1,2,3,5) by (rule run_op_capacity)
  have "booked (run_ops (run_op d op) ops) rid dt tm \<le> n"
    using found Cons.prems(2) stored rest_ops inv by (rule Cons.IH)
  then show ?case by (simp add: run_ops_def)
qed

text \<open>
  Claim C1, as the source has it. The source has no lock and no transaction: the claim
  holds for operations that run one after the other, not for calls that overlap. For a
  restaurant with \<open>total_seats\<close> set, a store whose party sizes are not negative and
  whose slot is within capacity, and any sequence of \<open>createReservation\<close> and
  \<open>cancelReservation\<close> calls, each run to its end before the next starts and each
  creation for a party size that is not negative, the seats booked in the slot are
  within \<open>total_seats\<close> after every call of the sequence.
\<close>

theorem run_ops_capacity:
  assumes "single (filter (\<lambda>r. id_rest r = rid) (restaurants d)) = Inr rest"
    and "total_seats rest = Some n"
    and "\<forall>r\<in>set (reservations d). 0 \<le> party_size r"
    and "\<forall>g input. Create g input \<in> set ops \<longrightarrow> 0 \<le> party_size_in input"
    and "booked d rid dt tm \<le> n"
  shows "booked (run_ops d (take k ops)) rid dt tm \<le> n"
proof -
  have "\<forall>g input. Create g input \<in> set (take k ops) \<longrightarrow> 0 \<le> party_size_in input"
    using assms(4) by (meson in_set_takeD)
  with assms(1,2,3) show ?thesis
    using assms(5) by (rule run_ops_invariant)
qed

lemma check_bistro:
  assumes "restaurants d = [bistro]"
  shows "available (checkAvailability d (check_at n))
         = (booked d ''r1'' ''2025-11-22'' ''19:00'' + n \<le> 10)"
proof -
  have "single (filter (\<lambda>r. id_rest r = restaurant_id_chk (check_at n)) (restaurants d))
        = Inr bistro"
    using assms by (simp add: check_at_sel bistro_def)
  then show ?thesis
    by (simp add: checkAvailability_found Let_def check_at_sel bistro_seats)
qed

lemma create_bistro:
  assumes "restaurants d = [bistro]"
  shows "fst (createReservation d g (input_at n))
         = (if booked d ''r1'' ''2025-11-22'' ''19:00'' + n \<le> 10
            then d\<lparr>reservations := reservations d @ [new_row g (input_at n)]\<rparr> else d)"
  by (simp add: createReservation_store check_of_input_at check_bistro [OF assms])

lemma new_row_input_at:
  "restaurant_id (new_row g (input_at n)) = ''r1''"
  "reservation_date (new_row g (input_at n)) = ''2025-11-22''"
  "reservation_time (new_row g (input_at n)) = ''19:00''"
  "party_size (new_row g (input_at n)) = n"
  "status (new_row g (input_at n)) = Confirmed"
  "id_res (new_row g (input_at n)) = gen_id g"
  by (simp_all add: new_row_def input_at_def)

lemma booked_rows:
  "booked (d\<lparr>reservations := rows\<rparr>) rid dt tm
   = sum_list (map party_size
       (filter (\<lambda>r. restaurant_id r = rid \<and> reservation_date r = dt
                    \<and> reservation_time r = tm \<and> status r \<noteq> Cancelled) rows))"
  by (simp add: booked_def slot_rows_def)

lemma example_ops_run:
  "run_ops db_A example_ops
   = db_A\<lparr>reservations :=
        [reservationA\<lparr>status := Cancelled\<rparr>, new_row gen_B (input_at 4),
         new_row gen_D (input_at 5)]\<rparr>"
proof -
  let ?B = "new_row gen_B (input_at 4)"
  have rest: "restaurants (db_A\<lparr>reservations := rows\<rparr>) = [bistro]" for rows
    by (simp add: db_A_def)
  have s1: "fst (createReservation db_A gen_B (input_at 4))
            = db_A\<lparr>reservations := [reservationA, ?B]\<rparr>"
    using create_bistro [of db_A gen_B 4] by (simp add: booked_db_A) (simp add: db_A_def)
  have s2: "fst (createReservation (db_A\<lparr>reservations := [reservationA, ?B]\<rparr>) gen_D (input_at 1))
            = db_A\<lparr>reservations := [reservationA, ?B]\<rparr>"
    using create_bistro [OF rest, of "[reservationA, ?B]" gen_D 1]
    by (simp add: booked_rows reservationA_sel new_row_input_at)
  have s3: "fst (cancelReservation (db_A\<lparr>reservations := [reservationA, ?B]\<rparr>) ''A'')
            = db_A\<lparr>reservations := [reservationA\<lparr>status := Cancelled\<rparr>, ?B]\<rparr>"
    by (simp add: cancelReservation_def update_rows_def new_row_input_at gen_B_def)
       (simp add: reservationA_def)
  have s4: "fst (createReservation
                  (db_A\<lparr>reservations := [reservationA\<lparr>status := Cancelled\<rparr>, ?B]\<rparr>)
                  gen_D (input_at 5))
            = db_A\<lparr>reservations :=
                [reservationA\<lparr>status := Cancelled\<rparr>, ?B, new_row gen_D (input_at 5)]\<rparr>"
    using create_bistro [OF rest, of "[reservationA\<lparr>status := Cancelled\<rparr>, ?B]" gen_D 5]
    by (simp add: booked_rows new_row_input_at)
  show ?thesis
    by (simp add: run_ops_def example_ops_def s1 s2 s3 s4)
qed

theorem run_ops_capacity_witness:
  "single (filter (\<lambda>r. id_rest r = ''r1'') (restaurants db_A)) = Inr bistro
   \<and> total_seats bistro = Some 10
   \<and> list_all (\<lambda>r. 0 \<le> party_size r) (reservations db_A)
   \<and> booked db_A ''r1'' ''2025-11-22'' ''19:00'' = 6
   \<and> booked (run_ops db_A (take 4 example_ops)) ''r1'' ''2025-11-22'' ''19:00'' \<le> 10
   \<and> booked (run_ops db_A example_ops) ''r1'' ''2025-11-22'' ''19:00'' = 9"
proof -
  have found: "single (filter (\<lambda>r. id_rest r = ''r1'') (restaurants db_A)) = Inr bistro"
    by (simp add: db_A_def bistro_def)
  have seats: "total_seats bistro = Some 10"
    by (simp add: bistro_def)
  have stored: "\<forall>r\<in>set (reservations db_A). 0 \<le> party_size r"
    by (simp add: db_A_def reservationA_sel)
  have inputs: "\<forall>g input. Create g input \<in> set example_ops \<longrightarrow> 0 \<le> party_size_in input"
    by (simp add: example_ops_def input_at_def)
  have inv: "booked db_A ''r1'' ''2025-11-22'' ''19:00'' \<le> 10"
    by (simp add: booked_db_A)
  have nine: "booked (run_ops db_A example_ops) ''r1'' ''2025-11-22'' ''19:00'' = 9"
    unfolding example_ops_run by (simp add: booked_rows new_row_input_at)
  show ?thesis
    using run_ops_capacity [OF found seats stored inputs inv, of 4] found seats stored nine
    by (simp add: booked_db_A list_all_iff)
qed

text \<open>
  The claim as the spec words it fails for creations that overlap. Two calls for a
  party of six each, started together on an empty slot of a restaurant with ten seats:
  both checks read the empty slot, both inserts follow, both calls return their row, and
  twelve seats are booked.
\<close>

theorem run_ops_capacity_counterexample:
  "total_seats bistro = Some 10
   \<and> booked db_empty ''r1'' ''2025-11-22'' ''19:00'' = 0
   \<and> fst (snd (createReservation_race db_empty gen_B (input_at 6) gen_D (input_at 6)))
       = Inr (new_row gen_B (input_at 6))
   \<and> snd (snd (createReservation_race db_empty gen_B (input_at 6) gen_D (input_at 6)))
       = Inr (new_row gen_D (input_at 6))
   \<and> booked (fst (createReservation_race db_empty gen_B (input_at 6) gen_D (input_at 6)))
        ''r1'' ''2025-11-22'' ''19:00'' = 12"
proof -
  have rest: "restaurants db_empty = [bistro]"
    by (simp add: db_empty_def)
  have zero: "booked db_empty ''r1'' ''2025-11-22'' ''19:00'' = 0"
    by (simp add: booked_def slot_rows_def db_empty_def)
  have ok: "available (checkAvailability db_empty (check_of_input (input_at 6)))"
    by (simp add: check_of_input_at check_bistro [OF rest] zero)
  have race: "createReservation_race db_empty gen_B (input_at 6) gen_D (input_at 6)
      = (db_empty\<lparr>reservations := [new_row gen_B (input_at 6), new_row gen_D (input_at 6)]\<rparr>,
         Inr (new_row gen_B (input_at 6)), Inr (new_row gen_D (input_at 6)))"
    using ok
    by (simp add: createReservation_race_def createReservation_resume_def Let_def)
       (simp add: db_empty_def)
  show ?thesis
    unfolding race by (simp add: bistro_def zero booked_rows new_row_input_at)
qed

text \<open>
  The bound on the party sizes is needed: the source accepts a creation for a negative
  party size, which makes room that the cancellation of that reservation takes away.
\<close>

lemma negative_party_then_cancel:
  "booked (run_ops db_empty
             [Create gen_B (input_at (- 5)), Create gen_D (input_at 15), Cancel ''B''])
          ''r1'' ''2025-11-22'' ''19:00'' = 15"
proof -
  let ?B = "new_row gen_B (input_at (- 5))" and ?D = "new_row gen_D (input_at 15)"
  have rest: "restaurants (db_empty\<lparr>reservations := rows\<rparr>) = [bistro]" for rows
    by (simp add: db_empty_def)
  have zero: "booked db_empty ''r1'' ''2025-11-22'' ''19:00'' = 0"
    by (simp add: booked_def slot_rows_def db_empty_def)
  have s1: "fst (createReservation db_empty gen_B (input_at (- 5)))
            = db_empty\<lparr>reservations := [?B]\<rparr>"
    using create_bistro [of db_empty gen_B "- 5"] by (simp add: zero) (simp add: db_empty_def)
  have s2: "fst (createReservation (db_empty\<lparr>reservations := [?B]\<rparr>) gen_D (input_at 15))
            = db_empty\<lparr>reservations := [?B, ?D]\<rparr>"
    using create_bistro [OF rest, of "[?B]" gen_D 15]
    by (simp add: booked_rows new_row_input_at)
  have s3: "fst (cancelReservation (db_empty\<lparr>reservations := [?B, ?D]\<rparr>) ''B'')
            = db_empty\<lparr>reservations := [?B\<lparr>status := Cancelled\<rparr>, ?D]\<rparr>"
    by (simp add: cancelReservation_def update_rows_def new_row_input_at gen_B_def gen_D_def)
  show ?thesis
    by (simp add: run_ops_def s1 s2 s3 booked_rows new_row_input_at)
qed

end
